theory Spec2Isabelle
  imports Complex_Main "HOL-Library.Word"
begin

section \<open>JavaScript values\<close>

text \<open>
  A JavaScript string is a sequence of UTF-16 code units; \<open>.length\<close> counts code
  units. Message texts are written as HOL string literals and embedded by \<open>lit\<close>.
\<close>

type_synonym code_unit = "16 word"
type_synonym jsstring = "code_unit list"

definition lit :: "string \<Rightarrow> jsstring" where
  "lit cs = map of_char cs"

text \<open>
  A JavaScript number is an IEEE double: a finite value (a real here; comparisons of
  doubles are comparisons of their values, and the two zeros compare equal), NaN, or an
  infinity.
\<close>

datatype number = Finite real | NaN | PosInfinity | NegInfinity

text \<open>The relational operators \<open><\<close>, \<open>>\<close> and \<open><=\<close> on numbers: false whenever NaN is involved.\<close>

fun num_lt :: "number \<Rightarrow> number \<Rightarrow> bool" where
  "num_lt (Finite a) (Finite b) = (a < b)"
| "num_lt (Finite a) PosInfinity = True"
| "num_lt NegInfinity (Finite b) = True"
| "num_lt NegInfinity PosInfinity = True"
| "num_lt _ _ = False"

definition num_gt :: "number \<Rightarrow> number \<Rightarrow> bool" where
  "num_gt a b = num_lt b a"

fun num_le :: "number \<Rightarrow> number \<Rightarrow> bool" where
  "num_le NaN _ = False"
| "num_le _ NaN = False"
| "num_le a b = (if num_lt b a then False else True)"

text \<open>\<open>Number.isFinite\<close> and \<open>Number.isInteger\<close> on a value already known to be a number.\<close>

fun isFinite :: "number \<Rightarrow> bool" where
  "isFinite (Finite r) = True"
| "isFinite _ = False"

fun isInteger :: "number \<Rightarrow> bool" where
  "isInteger (Finite r) = (of_int \<lfloor>\<bar>r\<bar>\<rfloor> = \<bar>r\<bar>)"
| "isInteger _ = False"

text \<open>
  The values an \<open>unknown\<close> parameter can hold. Objects, functions and symbols are opaque
  references; the validators only ever look at \<open>typeof\<close>.
\<close>

datatype jsval =
    JUndefined
  | JNull
  | JBoolean bool
  | JNumber number
  | JString jsstring
  | JBigInt int
  | JSymbol nat
  | JFunction nat
  | JObject nat

fun typeof :: "jsval \<Rightarrow> string" where
  "typeof JUndefined = ''undefined''"
| "typeof JNull = ''object''"
| "typeof (JBoolean b) = ''boolean''"
| "typeof (JNumber n) = ''number''"
| "typeof (JString s) = ''string''"
| "typeof (JBigInt i) = ''bigint''"
| "typeof (JSymbol k) = ''symbol''"
| "typeof (JFunction k) = ''function''"
| "typeof (JObject k) = ''object''"

section \<open>The result type\<close>

text \<open>\<open>ValidationResult<T>\<close>: \<open>{ valid: true; value: T } | { valid: false; error: string }\<close>.\<close>

datatype 'a ValidationResult = Valid 'a | Invalid jsstring

text \<open>A default parameter \<open>fieldName = "Field"\<close>: the default is taken when the argument is omitted.\<close>

fun orDefault :: "jsstring option \<Rightarrow> string \<Rightarrow> jsstring" where
  "orDefault None d = lit d"
| "orDefault (Some f) d = f"

text \<open>\<open>typeof value !== "string"\<close> and \<open>typeof value !== "number"\<close>, with the narrowing they give.\<close>

fun asString :: "jsval \<Rightarrow> jsstring option" where
  "asString (JString s) = Some s"
| "asString _ = None"

fun asNumber :: "jsval \<Rightarrow> number option" where
  "asNumber (JNumber n) = Some n"
| "asNumber _ = None"

section \<open>Platform functions the validators call\<close>

text \<open>
  \<open>String.prototype.trim\<close> removes leading and trailing WhiteSpace and LineTerminator
  code units (ECMAScript 22.1.3.32); the regular expression class \<open>\s\<close> is the same set.
\<close>

definition isWhiteSpace :: "code_unit \<Rightarrow> bool" where
  "isWhiteSpace c =
     (c \<in> set [0x0009, 0x000A, 0x000B, 0x000C, 0x000D, 0x0020, 0x00A0, 0x1680,
                0x2028, 0x2029, 0x202F, 0x205F, 0x3000, 0xFEFF]
      \<or> (0x2000 \<le> c \<and> c \<le> 0x200A))"

definition trim :: "jsstring \<Rightarrow> jsstring" where
  "trim s = rev (dropWhile isWhiteSpace (rev (dropWhile isWhiteSpace s)))"

text \<open>\<open>Array.prototype.join\<close> on an array of strings.\<close>

fun join :: "jsstring \<Rightarrow> jsstring list \<Rightarrow> jsstring" where
  "join sep [] = []"
| "join sep [x] = x"
| "join sep (x # y # ys) = x @ sep @ join sep (y # ys)"

text \<open>
  A \<open>RegExp\<close> is used through its \<open>test\<close> method only. With the \<open>g\<close> or \<open>y\<close> flag
  \<open>test\<close> reads and writes \<open>lastIndex\<close>, so \<open>test\<close> takes and returns the state \<open>'r\<close>
  of the expression.
\<close>

type_synonym 'r RegExp = "jsstring \<Rightarrow> 'r \<Rightarrow> bool \<times> 'r"

text \<open>
  The pattern of \<open>validateEmail\<close>, \<open>/^[^\s@]+@[^\s@]+\.[^\s@]+$/\<close>, is a sequence of
  single-character items and \<open>+\<close>-repetitions of a character class, anchored at both ends.
\<close>

datatype rx = One "code_unit \<Rightarrow> bool" | Plus "code_unit \<Rightarrow> bool"

fun rxMatch :: "rx list \<Rightarrow> jsstring \<Rightarrow> bool" where
  "rxMatch [] s = (s = [])"
| "rxMatch (One p # r) [] = False"
| "rxMatch (One p # r) (c # cs) = (p c \<and> rxMatch r cs)"
| "rxMatch (Plus p # r) [] = False"
| "rxMatch (Plus p # r) (c # cs) = (p c \<and> (rxMatch (Plus p # r) cs \<or> rxMatch r cs))"

definition notSpaceOrAt :: "code_unit \<Rightarrow> bool" where
  "notSpaceOrAt c = (if isWhiteSpace c then False else c \<noteq> 0x40)"

definition emailPattern :: "unit RegExp" where
  "emailPattern s u =
     (rxMatch [Plus notSpaceOrAt, One (\<lambda>c. c = 0x40), Plus notSpaceOrAt,
               One (\<lambda>c. c = 0x2E), Plus notSpaceOrAt] s, u)"

text \<open>\<open>new URL(value)\<close> either returns a URL object or throws a \<open>TypeError\<close>.\<close>

datatype exn = TypeError

type_synonym 'u URLparser = "jsstring \<Rightarrow> exn + 'u"

section \<open>The validators\<close>

text \<open>
  \<open>validateMinLength\<close>, \<open>validateMaxLength\<close> and \<open>validateNumberRange\<close> put a number
  into a template literal. The conversion \<open>Number::toString\<close> is a function of the
  language, taken as the parameter \<open>toStr\<close>.
\<close>

definition validateNonEmpty :: "jsval \<Rightarrow> jsstring option \<Rightarrow> jsstring ValidationResult" where
  "validateNonEmpty value fieldName =
     (let field = orDefault fieldName ''Field'' in
      case asString value of
        None \<Rightarrow> Invalid (field @ lit '' must be a string'')
      | Some s \<Rightarrow>
          (let trimmed = trim s in
           if length trimmed = 0 then Invalid (field @ lit '' cannot be empty'')
           else Valid trimmed))"

definition validatePattern ::
  "jsval \<Rightarrow> 'r RegExp \<Rightarrow> jsstring \<Rightarrow> 'r \<Rightarrow> jsstring ValidationResult \<times> 'r" where
  "validatePattern value pattern errorMessage r =
     (case asString value of
        None \<Rightarrow> (Invalid errorMessage, r)
      | Some s \<Rightarrow>
          (case pattern s r of
             (False, r') \<Rightarrow> (Invalid errorMessage, r')
           | (True, r') \<Rightarrow> (Valid s, r')))"

definition validateMinLength ::
  "(number \<Rightarrow> jsstring) \<Rightarrow> jsval \<Rightarrow> number \<Rightarrow> jsstring option \<Rightarrow> jsstring ValidationResult" where
  "validateMinLength toStr value minLength fieldName =
     (let field = orDefault fieldName ''Field'' in
      case asString value of
        None \<Rightarrow> Invalid (field @ lit '' must be a string'')
      | Some s \<Rightarrow>
          if num_lt (Finite (real (length s))) minLength
          then Invalid (field @ lit '' must be at least '' @ toStr minLength @ lit '' character''
                        @ (if minLength = Finite 1 then lit [] else lit ''s''))
          else Valid s)"

definition validateMaxLength ::
  "(number \<Rightarrow> jsstring) \<Rightarrow> jsval \<Rightarrow> number \<Rightarrow> jsstring option \<Rightarrow> jsstring ValidationResult" where
  "validateMaxLength toStr value maxLength fieldName =
     (let field = orDefault fieldName ''Field'' in
      case asString value of
        None \<Rightarrow> Invalid (field @ lit '' must be a string'')
      | Some s \<Rightarrow>
          if num_gt (Finite (real (length s))) maxLength
          then Invalid (field @ lit '' must be at most '' @ toStr maxLength @ lit '' character''
                        @ (if maxLength = Finite 1 then lit [] else lit ''s''))
          else Valid s)"

definition validateLength ::
  "(number \<Rightarrow> jsstring) \<Rightarrow> jsval \<Rightarrow> number \<Rightarrow> number \<Rightarrow> jsstring option
     \<Rightarrow> jsstring ValidationResult" where
  "validateLength toStr value minLength maxLength fieldName =
     (let field = orDefault fieldName ''Field'' in
      case validateMinLength toStr value minLength (Some field) of
        Invalid e \<Rightarrow> Invalid e
      | Valid v \<Rightarrow> validateMaxLength toStr (JString v) maxLength (Some field))"

definition validateEmail :: "jsval \<Rightarrow> jsstring option \<Rightarrow> jsstring ValidationResult" where
  "validateEmail value fieldName =
     (let field = orDefault fieldName ''Email'' in
      fst (validatePattern value emailPattern (field @ lit '' must be a valid email address'') ()))"

definition validateUrl :: "'u URLparser \<Rightarrow> jsval \<Rightarrow> jsstring option \<Rightarrow> jsstring ValidationResult" where
  "validateUrl newURL value fieldName =
     (let field = orDefault fieldName ''URL'' in
      case asString value of
        None \<Rightarrow> Invalid (field @ lit '' must be a string'')
      | Some s \<Rightarrow>
          (case newURL s of
             Inr u \<Rightarrow> Valid s
           | Inl e \<Rightarrow> Invalid (field @ lit '' must be a valid URL'')))"

definition quoted :: "jsstring \<Rightarrow> jsstring" where
  "quoted opt = [0x22] @ opt @ [0x22]"

definition validateOneOf ::
  "jsval \<Rightarrow> jsstring list \<Rightarrow> jsstring option \<Rightarrow> jsstring ValidationResult" where
  "validateOneOf value options fieldName =
     (let field = orDefault fieldName ''Field'' in
      case asString value of
        None \<Rightarrow> Invalid (field @ lit '' must be a string'')
      | Some s \<Rightarrow>
          if s \<in> set options then Valid s
          else (let optionsList = join (lit '', '') (map quoted options) in
                Invalid (field @ lit '' must be one of: '' @ optionsList)))"

definition validateNumberRange ::
  "(number \<Rightarrow> jsstring) \<Rightarrow> jsval \<Rightarrow> number \<Rightarrow> number \<Rightarrow> jsstring option
     \<Rightarrow> number ValidationResult" where
  "validateNumberRange toStr value min' max' fieldName =
     (let field = orDefault fieldName ''Number'' in
      case asNumber value of
        None \<Rightarrow> Invalid (field @ lit '' must be a finite number'')
      | Some n \<Rightarrow>
          if isFinite n then
            (if num_lt n min' \<or> num_gt n max'
             then Invalid (field @ lit '' must be between '' @ toStr min' @ lit '' and '' @ toStr max')
             else Valid n)
          else Invalid (field @ lit '' must be a finite number''))"

definition validatePositiveInteger :: "jsval \<Rightarrow> jsstring option \<Rightarrow> number ValidationResult" where
  "validatePositiveInteger value fieldName =
     (let field = orDefault fieldName ''Number'' in
      case asNumber value of
        None \<Rightarrow> Invalid (field @ lit '' must be an integer'')
      | Some n \<Rightarrow>
          if isInteger n then
            (if num_le n (Finite 0) then Invalid (field @ lit '' must be a positive integer'')
             else Valid n)
          else Invalid (field @ lit '' must be an integer''))"

section \<open>The sequencer\<close>

text \<open>
  A validator passed to \<open>validateAll\<close> is a caller-supplied function
  \<open>(val: unknown) => ValidationResult\<close>. JavaScript functions may have effects, so a
  validator takes and returns a state of the caller's choosing; a pure validator leaves
  it unchanged. A validator returns a result, as its type says: \<open>validateAll\<close> has no
  \<open>try\<close>, and none of the validators of this file throws.
\<close>

type_synonym 's validator = "jsval \<Rightarrow> 's \<Rightarrow> jsstring ValidationResult \<times> 's"

definition pureValidator :: "(jsval \<Rightarrow> jsstring ValidationResult) \<Rightarrow> 's validator" where
  "pureValidator f = (\<lambda>v s. (f v, s))"

text \<open>
  The \<open>for\<close> loop of \<open>validateAll\<close>: \<open>Inl result\<close> is the early \<open>return result\<close>,
  \<open>Inr value\<close> is the working value when the loop runs to its end.
\<close>

fun forLoop :: "'s validator list \<Rightarrow> jsval \<Rightarrow> 's \<Rightarrow> (jsstring ValidationResult + jsval) \<times> 's" where
  "forLoop [] value s = (Inr value, s)"
| "forLoop (validator # rest) value s =
     (case validator value s of
        (Invalid e, s') \<Rightarrow> (Inl (Invalid e), s')
      | (Valid v, s') \<Rightarrow> forLoop rest (JString v) s')"

text \<open>\<open>validators[validators.length - 1]?.(value)\<close>: undefined on the empty array.\<close>

fun lastCall :: "'s validator list \<Rightarrow> jsval \<Rightarrow> 's \<Rightarrow> jsstring ValidationResult option \<times> 's" where
  "lastCall [] value s = (None, s)"
| "lastCall (v # vs) value s = (case last (v # vs) value s of (r, s') \<Rightarrow> (Some r, s'))"

fun asUnknown :: "jsstring ValidationResult \<Rightarrow> jsval ValidationResult" where
  "asUnknown (Valid v) = Valid (JString v)"
| "asUnknown (Invalid e) = Invalid e"

definition validateAll :: "jsval \<Rightarrow> 's validator list \<Rightarrow> 's \<Rightarrow> jsval ValidationResult \<times> 's" where
  "validateAll value validators s =
     (case forLoop validators value s of
        (Inl result, s') \<Rightarrow> (asUnknown result, s')
      | (Inr value', s') \<Rightarrow>
          (case lastCall validators value' s' of
             (Some (Valid w), s'') \<Rightarrow> (Valid (JString w), s'')
           | (Some (Invalid e), s'') \<Rightarrow> (Valid value', s'')
           | (None, s'') \<Rightarrow> (Valid value', s'')))"

section \<open>A chain of successful validators\<close>

text \<open>
  \<open>threads validators value s w t\<close>: starting from the working value \<open>value\<close> in state
  \<open>s\<close>, each validator in turn, in the order of the list, is applied to the current
  working value and returns \<open>Valid\<close>; the value it returns is the working value of the
  next one. \<open>w\<close> is the working value and \<open>t\<close> the state after the last of them.
\<close>

inductive threads :: "'s validator list \<Rightarrow> jsval \<Rightarrow> 's \<Rightarrow> jsval \<Rightarrow> 's \<Rightarrow> bool" where
  threads_Nil: "threads [] value s value s"
| threads_Cons: "validator value s = (Valid v, s') \<Longrightarrow> threads rest (JString v) s' w t
     \<Longrightarrow> threads (validator # rest) value s w t"

code_pred threads .

section \<open>Instances used in the examples\<close>

text \<open>
  \<open>integerToString\<close> stands for \<open>Number::toString\<close> in the examples. It agrees with it on
  NaN, the infinities and the integers of magnitude below \<open>2^53\<close>, which is all the
  examples use; the fraction of any other number is dropped.
\<close>

definition digitUnit :: "nat \<Rightarrow> code_unit" where
  "digitUnit d = of_nat (48 + d)"

function natDigits :: "nat \<Rightarrow> jsstring" where
  "natDigits n = (if n < 10 then [digitUnit n] else natDigits (n div 10) @ [digitUnit (n mod 10)])"
  by pat_completeness auto
termination
  by (relation "measure id") auto

definition integerToString :: "number \<Rightarrow> jsstring" where
  "integerToString n =
     (case n of
        Finite r \<Rightarrow> (if r < 0 then lit ''-'' else []) @ natDigits (nat \<lfloor>\<bar>r\<bar>\<rfloor>)
      | NaN \<Rightarrow> lit ''NaN''
      | PosInfinity \<Rightarrow> lit ''Infinity''
      | NegInfinity \<Rightarrow> lit ''-Infinity'')"

text \<open>
  \<open>testSuiteURL\<close> stands for \<open>new URL\<close> in the examples: it accepts the two URLs that
  \<open>validation.test.ts\<close> expects to be accepted and throws on every other string.
\<close>

definition testSuiteURL :: "jsstring URLparser" where
  "testSuiteURL s =
     (if s \<in> set [lit ''https://example.com'', lit ''http://localhost:3000'']
      then Inr s else Inl TypeError)"

text \<open>
  A caller-supplied validator that normalises by appending a mark:
  \<open>(v) => typeof v === "string" ? { valid: true, value: v + "!" } : { valid: false, ... }\<close>.
\<close>

definition appendMark :: "'s validator" where
  "appendMark value s =
     (case asString value of
        None \<Rightarrow> (Invalid (lit ''Field must be a string''), s)
      | Some v \<Rightarrow> (Valid (v @ lit ''!''), s))"

text \<open>
  \<open>test\<close> of the one-character pattern \<open>c\<close> with the \<open>g\<close> flag: the search starts at
  \<open>lastIndex\<close>; a match sets \<open>lastIndex\<close> to the index after it, a failure resets it to 0.
  \<open>containsA\<close> is the validator \<open>(v) => validatePattern(v, re, msg)\<close> for one shared
  \<open>re = /a/g\<close>; its state is the \<open>lastIndex\<close> of \<open>re\<close>.
\<close>

definition globalCharTest :: "code_unit \<Rightarrow> nat RegExp" where
  "globalCharTest c s lastIndex =
     (if length s < lastIndex then (False, 0)
      else case dropWhile (\<lambda>x. x \<noteq> c) (drop lastIndex s) of
             [] \<Rightarrow> (False, 0)
           | m # rest \<Rightarrow> (True, length s - length rest))"

definition containsA :: "nat validator" where
  "containsA value r = validatePattern value (globalCharTest 0x61) (lit ''Field must contain a'') r"

text \<open>A pure validator instrumented to record each of its invocations in a call log.\<close>

definition logged :: "nat \<Rightarrow> (jsval \<Rightarrow> jsstring ValidationResult) \<Rightarrow> nat list validator" where
  "logged k f value calls = (f value, calls @ [k])"

section \<open>Auxiliary facts\<close>

lemma lit_append: "lit (a @ b) = lit a @ lit b"
  by (simp add: lit_def)

lemma unat_of_char: "unat (of_char c :: 16 word) = of_char c"
proof -
  have lt: "(of_char c :: nat) < 256"
    by (metis of_char_mod_256 mod_less_divisor zero_less_numeral)
  have "(of_char c :: 16 word) = of_nat (of_char c)"
    by (simp add: of_nat_of_char)
  then have "unat (of_char c :: 16 word) = (of_char c :: nat) mod 2 ^ 16"
    by (simp add: unat_of_nat)
  moreover have "(of_char c :: nat) < 2 ^ 16"
    by (rule order_less_trans[OF lt]) simp
  ultimately show ?thesis by (simp only: mod_less)
qed

lemma of_char_word_eq_iff: "(of_char c :: 16 word) = of_char d \<longleftrightarrow> c = d"
proof
  assume "(of_char c :: 16 word) = of_char d"
  then have "unat (of_char c :: 16 word) = unat (of_char d :: 16 word)" by simp
  then have "(of_char c :: nat) = of_char d" by (simp only: unat_of_char)
  then show "c = d" by simp
qed simp

lemma lit_eq_iff: "lit a = lit b \<longleftrightarrow> a = b"
  unfolding lit_def by (rule inj_map_eq_map) (simp add: inj_on_def of_char_word_eq_iff)

lemma asString_None: "typeof value \<noteq> ''string'' \<Longrightarrow> asString value = None"
  by (cases "value") simp_all

lemma asNumber_None: "typeof value \<noteq> ''number'' \<Longrightarrow> asNumber value = None"
  by (cases "value") simp_all

lemma num_le_not_lt: "num_le a b \<Longrightarrow> num_lt b a = False"
  by (cases a; cases b) (simp_all split: if_splits)

lemma isInteger_of_int: "isInteger (Finite (of_int k))"
proof -
  have "\<bar>of_int k :: real\<bar> = of_int \<bar>k\<bar>" by simp
  then show ?thesis by (simp only: isInteger.simps floor_of_int)
qed

lemma forLoop_threads:
  "forLoop validators value s = (Inr w, t) \<longleftrightarrow> threads validators value s w t"
proof
  show "forLoop validators value s = (Inr w, t) \<Longrightarrow> threads validators value s w t"
  proof (induction validators arbitrary: "value" s)
    case Nil
    then show ?case by (simp add: threads_Nil)
  next
    case (Cons f fs)
    then show ?case
      by (auto split: prod.splits ValidationResult.splits intro: threads_Cons)
  qed
next
  show "threads validators value s w t \<Longrightarrow> forLoop validators value s = (Inr w, t)"
    by (induction rule: threads.induct) auto
qed

lemma forLoop_append:
  "forLoop (pre @ post) value s =
     (case forLoop pre value s of
        (Inl r, s') \<Rightarrow> (Inl r, s')
      | (Inr w, s') \<Rightarrow> forLoop post w s')"
  by (induction pre arbitrary: "value" s)
     (auto split: prod.splits ValidationResult.splits sum.splits)

lemma lastCall_nonempty:
  "validators \<noteq> [] \<Longrightarrow>
   lastCall validators value s = (case last validators value s of (r, s') \<Rightarrow> (Some r, s'))"
  by (cases validators) auto

text \<open>
  Every run of the loop is of one of two kinds: all validators succeed in a chain, or
  the validators before some \<open>f\<close> succeed in a chain and \<open>f\<close> returns \<open>Invalid\<close>.
\<close>

lemma forLoop_Inl_split:
  "forLoop validators value s = (Inl res, t) \<Longrightarrow>
   \<exists>pre f post w s1 e. validators = pre @ f # post \<and> threads pre value s w s1
      \<and> f w s1 = (Invalid e, t) \<and> res = Invalid e"
proof (induction validators arbitrary: "value" s)
  case Nil
  then show ?case by simp
next
  case (Cons g gs)
  obtain r s' where g: "g value s = (r, s')" by (cases "g value s")
  show ?case
  proof (cases r)
    case (Invalid e)
    with Cons.prems g have "res = Invalid e" "t = s'" by simp_all
    with g Invalid have "g # gs = [] @ g # gs \<and> threads [] value s value s
        \<and> g value s = (Invalid e, t) \<and> res = Invalid e"
      by (simp add: threads_Nil)
    then show ?thesis by blast
  next
    case (Valid v)
    with Cons.prems g have "forLoop gs (JString v) s' = (Inl res, t)" by simp
    from Cons.IH [OF this] obtain pre f post w s1 e where
      h: "gs = pre @ f # post" "threads pre (JString v) s' w s1"
         "f w s1 = (Invalid e, t)" "res = Invalid e"
      by blast
    from g Valid h(2) have "threads (g # pre) value s w s1"
      by (auto intro: threads_Cons)
    with h have "g # gs = (g # pre) @ f # post \<and> threads (g # pre) value s w s1
        \<and> f w s1 = (Invalid e, t) \<and> res = Invalid e"
      by simp
    then show ?thesis by blast
  qed
qed

lemma validators_pass_or_fail:
  "(\<exists>w t. threads validators value s w t)
   \<or> (\<exists>pre f post w s1 e s2. validators = pre @ f # post \<and> threads pre value s w s1
         \<and> f w s1 = (Invalid e, s2))"
proof (cases "forLoop validators value s")
  case (Pair x t)
  show ?thesis
  proof (cases x)
    case (Inl res)
    with Pair forLoop_Inl_split [of validators "value" s res t] show ?thesis by blast
  next
    case (Inr w)
    with Pair have "threads validators value s w t" by (simp add: forLoop_threads)
    then show ?thesis by blast
  qed
qed

lemmas example_defs =
  validateNonEmpty_def validateMinLength_def validateMaxLength_def validateLength_def
  validatePattern_def trim_def isWhiteSpace_def lit_def integerToString_def digitUnit_def
  num_gt_def logged_def pureValidator_def

section \<open>Properties of the sequencer\<close>

text \<open>
  C8. With an empty sequence of validators, \<open>validateAll\<close> returns \<open>Valid\<close> carrying
  the original input unchanged (and touches no state).
\<close>

theorem validateAll_empty: "validateAll value [] s = (Valid value, s)"
  by (simp add: validateAll_def)

text \<open>
  C3. \<open>validateAll\<close> applies the validators in order, threading each \<open>Valid\<close> value into
  the next validator; when the validators before \<open>f\<close> have all returned \<open>Valid\<close> in this
  way and \<open>f\<close> returns \<open>Invalid\<close> on the working value they leave, \<open>validateAll\<close> returns
  exactly that \<open>Invalid\<close> result. The state is the one \<open>f\<close> left and nothing depends on
  the validators \<open>post\<close> after \<open>f\<close>: none of them is invoked.
\<close>

theorem validateAll_short_circuit:
  assumes "threads pre value s w s1" and "f w s1 = (Invalid e, s2)"
  shows "validateAll value (pre @ f # post) s = (Invalid e, s2)"
  using assms by (simp add: validateAll_def forLoop_append forLoop_threads[symmetric])

text \<open>
  C3, at the chain of \<open>validation.test.ts\<close>: on \<open>"hi"\<close> the non-empty check passes, the
  minimum length 5 fails, and the call log shows that the maximum-length validator was
  never invoked.
\<close>

theorem validateAll_short_circuit_witness:
  "threads [logged 0 (\<lambda>v. validateNonEmpty v None)] (JString (lit ''hi'')) []
       (JString (lit ''hi'')) [0]
   \<and> logged 1 (\<lambda>v. validateMinLength integerToString v (Finite 5) None) (JString (lit ''hi'')) [0]
       = (Invalid (lit ''Field must be at least 5 characters''), [0, 1])
   \<and> validateAll (JString (lit ''hi''))
        ([logged 0 (\<lambda>v. validateNonEmpty v None)]
         @ logged 1 (\<lambda>v. validateMinLength integerToString v (Finite 5) None)
         # [logged 2 (\<lambda>v. validateMaxLength integerToString v (Finite 10) None)]) []
       = (Invalid (lit ''Field must be at least 5 characters''), [0, 1])"
proof -
  have t: "threads [logged 0 (\<lambda>v. validateNonEmpty v None)] (JString (lit ''hi'')) []
             (JString (lit ''hi'')) [0]"
    by (simp add: forLoop_threads[symmetric] example_defs)
  have f: "logged 1 (\<lambda>v. validateMinLength integerToString v (Finite 5) None)
             (JString (lit ''hi'')) [0]
           = (Invalid (lit ''Field must be at least 5 characters''), [0, 1])"
    by (simp add: example_defs)
  have "validateAll (JString (lit ''hi''))
          ([logged 0 (\<lambda>v. validateNonEmpty v None)]
           @ logged 1 (\<lambda>v. validateMinLength integerToString v (Finite 5) None)
           # [logged 2 (\<lambda>v. validateMaxLength integerToString v (Finite 10) None)]) []
        = (Invalid (lit ''Field must be at least 5 characters''), [0, 1])"
    using t f
    by (rule validateAll_short_circuit
          [where f = "logged 1 (\<lambda>v. validateMinLength integerToString v (Finite 5) None)"])
  with t f show ?thesis by blast
qed

text \<open>
  C2, as stated: whenever every validator of a non-empty sequence succeeds in the loop,
  \<open>validateAll\<close> returns \<open>Valid\<close> carrying the last validator's result value from the
  loop. This fails for a validator whose transform is not idempotent: with \<open>appendMark\<close>
  the loop leaves \<open>"a!"\<close>, and the re-invocation of the validator turns it into \<open>"a!!"\<close>,
  which is what \<open>validateAll\<close> returns.
\<close>

theorem validateAll_last_value_counterexample:
  "threads [appendMark] (JString (lit ''a'')) () (JString (lit ''a!'')) ()
   \<and> validateAll (JString (lit ''a'')) [appendMark] () = (Valid (JString (lit ''a!!'')), ())
   \<and> validateAll (JString (lit ''a'')) [appendMark] () \<noteq> (Valid (JString (lit ''a!'')), ())"
  by (simp add: forLoop_threads[symmetric] validateAll_def appendMark_def lit_def)

text \<open>
  C2, amended: for a non-empty sequence whose validators all succeed in the loop, leaving
  the working value \<open>w\<close> (the last validator's result value from the loop), if the
  re-invocation of the final validator on \<open>w\<close> returns \<open>Valid\<close> carrying \<open>u\<close>, then
  \<open>validateAll\<close> returns \<open>Valid\<close> carrying \<open>u\<close>; this is the last validator's result value
  from the loop when the re-invocation returns its argument unchanged.
\<close>

theorem validateAll_reinvokes_last:
  assumes "validators \<noteq> []" and "threads validators value s w s1"
    and "last validators w s1 = (Valid u, s2)"
  shows "validateAll value validators s = (Valid (JString u), s2)
         \<and> (JString u = w \<longrightarrow> validateAll value validators s = (Valid w, s2))"
  using assms
  by (simp add: validateAll_def forLoop_threads[symmetric] lastCall_nonempty)

text \<open>
  C2, at the passing chain of \<open>validation.test.ts\<close>: \<open>"hello"\<close> through the non-empty
  check and the minimum length 3. The transform of the last validator is the identity,
  so the value returned is the one the loop left.
\<close>

theorem validateAll_reinvokes_last_witness:
  "[pureValidator (\<lambda>v. validateNonEmpty v None),
    pureValidator (\<lambda>v. validateMinLength integerToString v (Finite 3) None)] \<noteq> []
   \<and> threads [pureValidator (\<lambda>v. validateNonEmpty v None),
               pureValidator (\<lambda>v. validateMinLength integerToString v (Finite 3) None)]
        (JString (lit ''  hello '')) () (JString (lit ''hello'')) ()
   \<and> last [pureValidator (\<lambda>v. validateNonEmpty v None),
            pureValidator (\<lambda>v. validateMinLength integerToString v (Finite 3) None)]
        (JString (lit ''hello'')) () = (Valid (lit ''hello''), ())
   \<and> validateAll (JString (lit ''  hello ''))
        [pureValidator (\<lambda>v. validateNonEmpty v None),
         pureValidator (\<lambda>v. validateMinLength integerToString v (Finite 3) None)] ()
       = (Valid (JString (lit ''hello'')), ())"
proof -
  let ?vs = "[pureValidator (\<lambda>v. validateNonEmpty v None),
              pureValidator (\<lambda>v. validateMinLength integerToString v (Finite 3) None)]
             :: unit validator list"
  have n: "?vs \<noteq> []" by simp
  have t: "threads ?vs (JString (lit ''  hello '')) () (JString (lit ''hello'')) ()"
    by (simp add: forLoop_threads[symmetric] example_defs)
  have l: "last ?vs (JString (lit ''hello'')) () = (Valid (lit ''hello''), ())"
    by (simp add: example_defs)
  from validateAll_reinvokes_last [OF n t l]
  have "validateAll (JString (lit ''  hello '')) ?vs () = (Valid (JString (lit ''hello'')), ())"
    by simp
  with n t l show ?thesis by blast
qed

text \<open>
  C9. For a non-empty sequence whose validators all succeed in the loop, leaving the
  working value \<open>w\<close>: if the re-invocation of the final validator on \<open>w\<close> returns
  \<open>Invalid\<close>, that result is discarded and \<open>validateAll\<close> returns \<open>Valid\<close> carrying \<open>w\<close>;
  and whatever the re-invocation returns, \<open>validateAll\<close> does not return an \<open>Invalid\<close>.
\<close>

theorem validateAll_discards_reinvocation_failure:
  assumes "validators \<noteq> []" and "threads validators value s w s1"
  shows "(\<forall>e s2. last validators w s1 = (Invalid e, s2) \<longrightarrow>
            validateAll value validators s = (Valid w, s2))
         \<and> (\<forall>e s2. validateAll value validators s \<noteq> (Invalid e, s2))"
  using assms
  by (auto simp add: validateAll_def forLoop_threads[symmetric] lastCall_nonempty
           split: prod.splits ValidationResult.splits)

text \<open>
  C9, at a validator that passes in the loop and fails when invoked again: a pattern
  with the \<open>g\<close> flag, shared between the calls, on \<open>"a"\<close>. The first \<open>test\<close> matches and
  leaves \<open>lastIndex = 1\<close>; the second starts there, finds nothing and fails.
\<close>

theorem validateAll_discards_reinvocation_failure_witness:
  "[containsA] \<noteq> []
   \<and> threads [containsA] (JString (lit ''a'')) 0 (JString (lit ''a'')) 1
   \<and> last [containsA] (JString (lit ''a'')) 1 = (Invalid (lit ''Field must contain a''), 0)
   \<and> validateAll (JString (lit ''a'')) [containsA] 0 = (Valid (JString (lit ''a'')), 0)"
proof -
  have n: "[containsA] \<noteq> []" by simp
  have t: "threads [containsA] (JString (lit ''a'')) 0 (JString (lit ''a'')) 1"
    by (simp add: forLoop_threads[symmetric] containsA_def globalCharTest_def
          validatePattern_def lit_def)
  have l: "last [containsA] (JString (lit ''a'')) 1 = (Invalid (lit ''Field must contain a''), 0)"
    by (simp add: containsA_def globalCharTest_def validatePattern_def lit_def)
  from validateAll_discards_reinvocation_failure [OF n t] l
  have "validateAll (JString (lit ''a'')) [containsA] 0 = (Valid (JString (lit ''a'')), 0)"
    by blast
  with n t l show ?thesis by blast
qed

section \<open>Properties of the string validators\<close>

text \<open>
  C1, as stated: on a non-string input every string validator returns \<open>Invalid\<close> with the
  type-error message \<open>"{field} must be a string"\<close>. \<open>validateEmail(123)\<close> returns the
  email-format message instead, as \<open>validation.test.ts\<close> expects.
\<close>

theorem string_validators_type_error_counterexample:
  "typeof (JNumber (Finite 123)) \<noteq> ''string''
   \<and> validateEmail (JNumber (Finite 123)) None
       = Invalid (lit ''Email must be a valid email address'')
   \<and> validateEmail (JNumber (Finite 123)) None \<noteq> Invalid (lit ''Email must be a string'')"
  by (simp add: validateEmail_def validatePattern_def lit_append[symmetric] lit_eq_iff)

text \<open>
  C1, amended: on a non-string input every string validator returns \<open>Invalid\<close> and none
  throws (each returns a \<open>ValidationResult\<close>). The error is \<open>"{field} must be a string"\<close>
  for \<open>validateNonEmpty\<close>, \<open>validateMinLength\<close>, \<open>validateMaxLength\<close>, \<open>validateLength\<close>,
  \<open>validateUrl\<close> and \<open>validateOneOf\<close>; it is the caller's \<open>errorMessage\<close> for
  \<open>validatePattern\<close>, which does not consult the pattern, and
  \<open>"{field} must be a valid email address"\<close> for \<open>validateEmail\<close>.
\<close>

theorem string_validators_reject_non_strings:
  assumes "typeof value \<noteq> ''string''"
  shows "validateNonEmpty value fieldName
           = Invalid (orDefault fieldName ''Field'' @ lit '' must be a string'')
       \<and> validateMinLength toStr value minLength fieldName
           = Invalid (orDefault fieldName ''Field'' @ lit '' must be a string'')
       \<and> validateMaxLength toStr value maxLength fieldName
           = Invalid (orDefault fieldName ''Field'' @ lit '' must be a string'')
       \<and> validateLength toStr value minLength maxLength fieldName
           = Invalid (orDefault fieldName ''Field'' @ lit '' must be a string'')
       \<and> validateUrl newURL value fieldName
           = Invalid (orDefault fieldName ''URL'' @ lit '' must be a string'')
       \<and> validateOneOf value options fieldName
           = Invalid (orDefault fieldName ''Field'' @ lit '' must be a string'')
       \<and> validatePattern value pattern errorMessage r = (Invalid errorMessage, r)
       \<and> validateEmail value fieldName
           = Invalid (orDefault fieldName ''Email'' @ lit '' must be a valid email address'')"
proof -
  from assms have a: "asString value = None" by (rule asString_None)
  have "validateNonEmpty value fieldName
          = Invalid (orDefault fieldName ''Field'' @ lit '' must be a string'')"
    by (simp add: validateNonEmpty_def a)
  moreover have m: "\<And>f. validateMinLength toStr value minLength f
          = Invalid (orDefault f ''Field'' @ lit '' must be a string'')"
    by (simp add: validateMinLength_def a)
  moreover have "validateMaxLength toStr value maxLength fieldName
          = Invalid (orDefault fieldName ''Field'' @ lit '' must be a string'')"
    by (simp add: validateMaxLength_def a)
  moreover have "validateLength toStr value minLength maxLength fieldName
          = Invalid (orDefault fieldName ''Field'' @ lit '' must be a string'')"
    by (simp add: validateLength_def m)
  moreover have "validateUrl newURL value fieldName
          = Invalid (orDefault fieldName ''URL'' @ lit '' must be a string'')"
    by (simp add: validateUrl_def a)
  moreover have "validateOneOf value options fieldName
          = Invalid (orDefault fieldName ''Field'' @ lit '' must be a string'')"
    by (simp add: validateOneOf_def a)
  moreover have p: "\<And>msg. validatePattern value pattern msg r = (Invalid msg, r)"
    by (simp add: validatePattern_def a)
  moreover have "validateEmail value fieldName
          = Invalid (orDefault fieldName ''Email'' @ lit '' must be a valid email address'')"
    by (simp add: validateEmail_def validatePattern_def a)
  ultimately show ?thesis by simp
qed

text \<open>C1, at the number 123 with the default field names, as in \<open>validation.test.ts\<close>.\<close>

theorem string_validators_reject_non_strings_witness:
  "typeof (JNumber (Finite 123)) \<noteq> ''string''
   \<and> validateNonEmpty (JNumber (Finite 123)) None = Invalid (lit ''Field must be a string'')
   \<and> validateMinLength integerToString (JNumber (Finite 123)) (Finite 3) None
       = Invalid (lit ''Field must be a string'')
   \<and> validateMaxLength integerToString (JNumber (Finite 123)) (Finite 5) None
       = Invalid (lit ''Field must be a string'')
   \<and> validateLength integerToString (JNumber (Finite 123)) (Finite 3) (Finite 5) None
       = Invalid (lit ''Field must be a string'')
   \<and> validateUrl testSuiteURL (JNumber (Finite 123)) None = Invalid (lit ''URL must be a string'')
   \<and> validateOneOf (JNumber (Finite 123)) [lit ''red'', lit ''green''] None
       = Invalid (lit ''Field must be a string'')
   \<and> validatePattern (JNumber (Finite 123)) emailPattern (lit ''Invalid format'') ()
       = (Invalid (lit ''Invalid format''), ())
   \<and> validateEmail (JNumber (Finite 123)) None
       = Invalid (lit ''Email must be a valid email address'')"
proof -
  have h: "typeof (JNumber (Finite 123)) \<noteq> ''string''" by simp
  from string_validators_reject_non_strings
         [OF h, of None integerToString "Finite 3" "Finite 5" testSuiteURL
            "[lit ''red'', lit ''green'']" emailPattern "lit ''Invalid format''" "()"]
  show ?thesis using h by (simp add: lit_append[symmetric])
qed

text \<open>
  C4. \<open>validateLength\<close> returns exactly what running \<open>validateMinLength\<close> and, only if
  that is \<open>Valid\<close>, running \<open>validateMaxLength\<close> on its value returns. In particular a
  string shorter than the minimum gets the min-length error whatever the maximum is,
  also when it violates the maximum too.
\<close>

theorem validateLength_min_then_max:
  "validateLength toStr value minLength maxLength fieldName
     = (case validateMinLength toStr value minLength fieldName of
          Invalid e \<Rightarrow> Invalid e
        | Valid v \<Rightarrow> validateMaxLength toStr (JString v) maxLength fieldName)
   \<and> (num_lt (Finite (real (length str))) minLength \<longrightarrow>
        validateLength toStr (JString str) minLength maxLength fieldName
          = Invalid (orDefault fieldName ''Field'' @ lit '' must be at least '' @ toStr minLength
                     @ lit '' character'' @ (if minLength = Finite 1 then [] else lit ''s'')))"
proof -
  have d: "\<And>f. orDefault (Some (orDefault f ''Field'')) ''Field'' = orDefault f ''Field''"
    by simp
  have mn: "\<And>v. validateMinLength toStr v minLength (Some (orDefault fieldName ''Field''))
              = validateMinLength toStr v minLength fieldName"
    by (simp add: validateMinLength_def d)
  have mx: "\<And>v. validateMaxLength toStr v maxLength (Some (orDefault fieldName ''Field''))
              = validateMaxLength toStr v maxLength fieldName"
    by (simp add: validateMaxLength_def d)
  have seq: "\<And>v. validateLength toStr v minLength maxLength fieldName
     = (case validateMinLength toStr v minLength fieldName of
          Invalid e \<Rightarrow> Invalid e
        | Valid u \<Rightarrow> validateMaxLength toStr (JString u) maxLength fieldName)"
    by (simp add: validateLength_def mn mx split: ValidationResult.splits)
  have short: "num_lt (Finite (real (length str))) minLength \<Longrightarrow>
        validateMinLength toStr (JString str) minLength fieldName
          = Invalid (orDefault fieldName ''Field'' @ lit '' must be at least '' @ toStr minLength
                     @ lit '' character'' @ (if minLength = Finite 1 then [] else lit ''s''))"
    by (simp add: validateMinLength_def lit_def)
  show ?thesis
  proof (intro conjI impI)
    show "validateLength toStr value minLength maxLength fieldName
     = (case validateMinLength toStr value minLength fieldName of
          Invalid e \<Rightarrow> Invalid e
        | Valid v \<Rightarrow> validateMaxLength toStr (JString v) maxLength fieldName)"
      by (rule seq)
  next
    assume "num_lt (Finite (real (length str))) minLength"
    then show "validateLength toStr (JString str) minLength maxLength fieldName
          = Invalid (orDefault fieldName ''Field'' @ lit '' must be at least '' @ toStr minLength
                     @ lit '' character'' @ (if minLength = Finite 1 then [] else lit ''s''))"
      by (simp only: seq short ValidationResult.case)
  qed
qed

text \<open>
  C4, at \<open>validateLength("hi", 3, 5)\<close>, which yields the min-length error, and at
  \<open>validateLength("hi", 3, 1)\<close>, where both bounds are violated.
\<close>

theorem validateLength_min_then_max_witness:
  "num_lt (Finite (real (length (lit ''hi'')))) (Finite 3)
   \<and> validateLength integerToString (JString (lit ''hi'')) (Finite 3) (Finite 5) None
       = Invalid (lit ''Field must be at least 3 characters'')
   \<and> validateLength integerToString (JString (lit ''hi'')) (Finite 3) (Finite 1) None
       = Invalid (lit ''Field must be at least 3 characters'')
   \<and> validateMaxLength integerToString (JString (lit ''hi'')) (Finite 1) None
       = Invalid (lit ''Field must be at most 1 character'')"
proof -
  have h: "num_lt (Finite (real (length (lit ''hi'')))) (Finite 3)"
    by (simp add: lit_def)
  have m: "validateMaxLength integerToString (JString (lit ''hi'')) (Finite 1) None
       = Invalid (lit ''Field must be at most 1 character'')"
    by (simp add: example_defs)
  have msg: "orDefault None ''Field'' @ lit '' must be at least '' @ integerToString (Finite 3)
               @ lit '' character'' @ (if Finite 3 = Finite 1 then [] else lit ''s'')
             = lit ''Field must be at least 3 characters''"
    by (simp add: lit_def integerToString_def digitUnit_def)
  have a: "validateLength integerToString (JString (lit ''hi'')) (Finite 3) (Finite 5) None
       = Invalid (lit ''Field must be at least 3 characters'')"
    using validateLength_min_then_max
            [of integerToString "JString (lit ''hi'')" "Finite 3" "Finite 5" None "lit ''hi''",
             THEN conjunct2, THEN mp, OF h]
    by (simp only: msg)
  have b: "validateLength integerToString (JString (lit ''hi'')) (Finite 3) (Finite 1) None
       = Invalid (lit ''Field must be at least 3 characters'')"
    using validateLength_min_then_max
            [of integerToString "JString (lit ''hi'')" "Finite 3" "Finite 1" None "lit ''hi''",
             THEN conjunct2, THEN mp, OF h]
    by (simp only: msg)
  from h a b m show ?thesis by blast
qed

text \<open>
  C7. \<open>validateUrl\<close> returns \<open>Invalid\<close> with \<open>"{field} must be a string"\<close> on a non-string,
  \<open>Invalid\<close> with \<open>"{field} must be a valid URL"\<close> on a string for which \<open>new URL\<close> throws,
  and \<open>Valid\<close> with the original string when \<open>new URL\<close> succeeds; the two messages are
  different.
\<close>

theorem validateUrl_results:
  "(typeof value \<noteq> ''string'' \<longrightarrow>
      validateUrl newURL value fieldName
        = Invalid (orDefault fieldName ''URL'' @ lit '' must be a string''))
   \<and> (newURL str = Inl x \<longrightarrow>
      validateUrl newURL (JString str) fieldName
        = Invalid (orDefault fieldName ''URL'' @ lit '' must be a valid URL''))
   \<and> (newURL str' = Inr u \<longrightarrow> validateUrl newURL (JString str') fieldName = Valid str')
   \<and> orDefault fieldName ''URL'' @ lit '' must be a string''
       \<noteq> orDefault fieldName ''URL'' @ lit '' must be a valid URL''"
  by (simp add: validateUrl_def asString_None lit_eq_iff)

text \<open>
  C7, at \<open>123\<close>, \<open>"example.com"\<close> (no scheme) and \<open>"https://example.com"\<close>, with the
  default field name.
\<close>

theorem validateUrl_results_witness:
  "typeof (JNumber (Finite 123)) \<noteq> ''string''
   \<and> validateUrl testSuiteURL (JNumber (Finite 123)) None = Invalid (lit ''URL must be a string'')
   \<and> testSuiteURL (lit ''example.com'') = Inl TypeError
   \<and> validateUrl testSuiteURL (JString (lit ''example.com'')) None
       = Invalid (lit ''URL must be a valid URL'')
   \<and> testSuiteURL (lit ''https://example.com'') = Inr (lit ''https://example.com'')
   \<and> validateUrl testSuiteURL (JString (lit ''https://example.com'')) None
       = Valid (lit ''https://example.com'')
   \<and> lit ''URL must be a string'' \<noteq> lit ''URL must be a valid URL''"
proof -
  have a: "typeof (JNumber (Finite 123)) \<noteq> ''string''" by simp
  have b: "testSuiteURL (lit ''example.com'') = Inl TypeError"
    by (simp add: testSuiteURL_def lit_eq_iff)
  have c: "testSuiteURL (lit ''https://example.com'') = Inr (lit ''https://example.com'')"
    by (simp add: testSuiteURL_def)
  from validateUrl_results
         [of "JNumber (Finite 123)" testSuiteURL None "lit ''example.com''" TypeError
             "lit ''https://example.com''" "lit ''https://example.com''"]
       a b c
  show ?thesis by (simp add: lit_append[symmetric])
qed

text \<open>
  C10. Against the empty list of options every string is rejected, with the message
  \<open>"{field} must be one of: "\<close> followed by nothing.
\<close>

theorem validateOneOf_empty_options:
  "validateOneOf (JString str) [] fieldName
     = Invalid (orDefault fieldName ''Field'' @ lit '' must be one of: '')"
  by (simp add: validateOneOf_def)

section \<open>Properties of the number validators\<close>

lemma isInteger_iff: "isInteger (Finite r) \<longleftrightarrow> r \<in> \<int>"
proof -
  have "isInteger (Finite r) \<longleftrightarrow> \<bar>r\<bar> \<in> \<int>"
    by (auto simp: Ints_def)
  also have "\<dots> \<longleftrightarrow> r \<in> \<int>"
    by (metis Ints_abs Ints_minus abs_minus_cancel abs_of_nonneg abs_of_nonpos linear minus_minus)
  finally show ?thesis .
qed

text \<open>
  C5. \<open>validateNumberRange\<close> returns \<open>Invalid\<close> with the finite-number message when the
  value is not a number or is NaN or an infinity; \<open>Invalid\<close> with the between-message
  when it is a finite number strictly below \<open>min\<close> or strictly above \<open>max\<close>; and \<open>Valid\<close>
  carrying the number when it is finite and \<open>min <= value <= max\<close>.
\<close>

theorem validateNumberRange_results:
  "(typeof value \<noteq> ''number'' \<or> value = JNumber NaN \<or> value = JNumber PosInfinity
      \<or> value = JNumber NegInfinity \<longrightarrow>
      validateNumberRange toStr value min' max' fieldName
        = Invalid (orDefault fieldName ''Number'' @ lit '' must be a finite number''))
   \<and> (num_lt (Finite r) min' \<or> num_gt (Finite r) max' \<longrightarrow>
      validateNumberRange toStr (JNumber (Finite r)) min' max' fieldName
        = Invalid (orDefault fieldName ''Number'' @ lit '' must be between '' @ toStr min'
                   @ lit '' and '' @ toStr max'))
   \<and> (num_le min' (Finite r') \<and> num_le (Finite r') max' \<longrightarrow>
      validateNumberRange toStr (JNumber (Finite r')) min' max' fieldName = Valid (Finite r'))"
proof (intro conjI impI)
  assume "typeof value \<noteq> ''number'' \<or> value = JNumber NaN \<or> value = JNumber PosInfinity
      \<or> value = JNumber NegInfinity"
  then show "validateNumberRange toStr value min' max' fieldName
        = Invalid (orDefault fieldName ''Number'' @ lit '' must be a finite number'')"
    by (auto simp: validateNumberRange_def asNumber_None)
next
  assume "num_lt (Finite r) min' \<or> num_gt (Finite r) max'"
  then show "validateNumberRange toStr (JNumber (Finite r)) min' max' fieldName
        = Invalid (orDefault fieldName ''Number'' @ lit '' must be between '' @ toStr min'
                   @ lit '' and '' @ toStr max')"
    by (auto simp: validateNumberRange_def)
next
  assume "num_le min' (Finite r') \<and> num_le (Finite r') max'"
  then have "num_lt (Finite r') min' = False" and "num_gt (Finite r') max' = False"
    by (simp_all add: num_le_not_lt num_gt_def)
  then show "validateNumberRange toStr (JNumber (Finite r')) min' max' fieldName = Valid (Finite r')"
    by (simp add: validateNumberRange_def)
qed

text \<open>
  C5, at the inputs of \<open>validation.test.ts\<close> for the range 1 to 10: the string \<open>"5"\<close> and
  NaN are not finite numbers, 0 is below the range, 11 is above it, 5 is inside.
\<close>

theorem validateNumberRange_results_witness:
  "typeof (JString (lit ''5'')) \<noteq> ''number''
   \<and> validateNumberRange integerToString (JString (lit ''5'')) (Finite 1) (Finite 10) None
       = Invalid (lit ''Number must be a finite number'')
   \<and> validateNumberRange integerToString (JNumber NaN) (Finite 1) (Finite 10) None
       = Invalid (lit ''Number must be a finite number'')
   \<and> num_lt (Finite 0) (Finite 1)
   \<and> validateNumberRange integerToString (JNumber (Finite 0)) (Finite 1) (Finite 10) None
       = Invalid (lit ''Number must be between 1 and 10'')
   \<and> num_gt (Finite 11) (Finite 10)
   \<and> validateNumberRange integerToString (JNumber (Finite 11)) (Finite 1) (Finite 10) None
       = Invalid (lit ''Number must be between 1 and 10'')
   \<and> num_le (Finite 1) (Finite 5) \<and> num_le (Finite 5) (Finite 10)
   \<and> validateNumberRange integerToString (JNumber (Finite 5)) (Finite 1) (Finite 10) None
       = Valid (Finite 5)"
proof -
  have msg1: "orDefault None ''Number'' @ lit '' must be a finite number''
              = lit ''Number must be a finite number''"
    by (simp add: lit_def)
  have msg2: "orDefault None ''Number'' @ lit '' must be between '' @ integerToString (Finite 1)
                @ lit '' and '' @ integerToString (Finite 10)
              = lit ''Number must be between 1 and 10''"
    by (simp add: lit_def integerToString_def digitUnit_def)
  have h1: "typeof (JString (lit ''5'')) \<noteq> ''number''" by simp
  have h2: "num_lt (Finite 0) (Finite 1)" by simp
  have h3: "num_gt (Finite 11) (Finite 10)" by (simp add: num_gt_def)
  have h4: "num_le (Finite 1) (Finite 5) \<and> num_le (Finite 5) (Finite 10)" by simp
  have a: "validateNumberRange integerToString (JString (lit ''5'')) (Finite 1) (Finite 10) None
       = Invalid (lit ''Number must be a finite number'')"
    using validateNumberRange_results
            [of "JString (lit ''5'')" integerToString "Finite 1" "Finite 10" None 0 0,
             THEN conjunct1, THEN mp, OF disjI1, OF h1]
    by (simp only: msg1)
  have b: "validateNumberRange integerToString (JNumber NaN) (Finite 1) (Finite 10) None
       = Invalid (lit ''Number must be a finite number'')"
    using validateNumberRange_results
            [of "JNumber NaN" integerToString "Finite 1" "Finite 10" None 0 0,
             THEN conjunct1, THEN mp, OF disjI2, OF disjI1, OF refl]
    by (simp only: msg1)
  have c: "validateNumberRange integerToString (JNumber (Finite 0)) (Finite 1) (Finite 10) None
       = Invalid (lit ''Number must be between 1 and 10'')"
    using validateNumberRange_results
            [of "JNumber NaN" integerToString "Finite 1" "Finite 10" None 0 0,
             THEN conjunct2, THEN conjunct1, THEN mp, OF disjI1, OF h2]
    by (simp only: msg2)
  have d: "validateNumberRange integerToString (JNumber (Finite 11)) (Finite 1) (Finite 10) None
       = Invalid (lit ''Number must be between 1 and 10'')"
    using validateNumberRange_results
            [of "JNumber NaN" integerToString "Finite 1" "Finite 10" None 11 0,
             THEN conjunct2, THEN conjunct1, THEN mp, OF disjI2, OF h3]
    by (simp only: msg2)
  have e: "validateNumberRange integerToString (JNumber (Finite 5)) (Finite 1) (Finite 10) None
       = Valid (Finite 5)"
    using validateNumberRange_results
            [of "JNumber NaN" integerToString "Finite 1" "Finite 10" None 0 5,
             THEN conjunct2, THEN conjunct2, THEN mp, OF h4] .
  from h1 a b h2 c h3 d h4 e show ?thesis by blast
qed

text \<open>
  C6. \<open>validatePositiveInteger\<close> returns \<open>Invalid\<close> with the integer message whenever the
  value is not an integer: not a number, NaN, an infinity, or a finite number with a
  fraction. Only an integer is checked for positivity: \<open>Invalid\<close> with the
  positive-integer message when it is \<open><= 0\<close>, \<open>Valid\<close> carrying it when it is \<open>>= 1\<close>.
\<close>

theorem validatePositiveInteger_results:
  "(typeof value \<noteq> ''number'' \<or> value = JNumber NaN \<or> value = JNumber PosInfinity
      \<or> value = JNumber NegInfinity \<longrightarrow>
      validatePositiveInteger value fieldName
        = Invalid (orDefault fieldName ''Number'' @ lit '' must be an integer''))
   \<and> (r \<notin> \<int> \<longrightarrow>
      validatePositiveInteger (JNumber (Finite r)) fieldName
        = Invalid (orDefault fieldName ''Number'' @ lit '' must be an integer''))
   \<and> (k \<le> 0 \<longrightarrow>
      validatePositiveInteger (JNumber (Finite (of_int k))) fieldName
        = Invalid (orDefault fieldName ''Number'' @ lit '' must be a positive integer''))
   \<and> (1 \<le> k' \<longrightarrow>
      validatePositiveInteger (JNumber (Finite (of_int k'))) fieldName = Valid (Finite (of_int k')))"
proof (intro conjI impI)
  assume "typeof value \<noteq> ''number'' \<or> value = JNumber NaN \<or> value = JNumber PosInfinity
      \<or> value = JNumber NegInfinity"
  then show "validatePositiveInteger value fieldName
        = Invalid (orDefault fieldName ''Number'' @ lit '' must be an integer'')"
    by (auto simp: validatePositiveInteger_def asNumber_None)
next
  assume "r \<notin> \<int>"
  then have "isInteger (Finite r) = False" by (simp only: isInteger_iff)
  then show "validatePositiveInteger (JNumber (Finite r)) fieldName
        = Invalid (orDefault fieldName ''Number'' @ lit '' must be an integer'')"
    by (simp add: validatePositiveInteger_def del: isInteger.simps)
next
  assume "k \<le> 0"
  then show "validatePositiveInteger (JNumber (Finite (of_int k))) fieldName
        = Invalid (orDefault fieldName ''Number'' @ lit '' must be a positive integer'')"
    by (simp add: validatePositiveInteger_def isInteger_of_int del: isInteger.simps)
next
  assume "1 \<le> k'"
  then show "validatePositiveInteger (JNumber (Finite (of_int k'))) fieldName = Valid (Finite (of_int k'))"
    by (simp add: validatePositiveInteger_def isInteger_of_int del: isInteger.simps)
qed

text \<open>
  C6, at the string \<open>"1"\<close>, at 1.5 (the integer check fails), at 0 (the positivity check
  fails) and at 1.
\<close>

theorem validatePositiveInteger_results_witness:
  "typeof (JString (lit ''1'')) \<noteq> ''number''
   \<and> validatePositiveInteger (JString (lit ''1'')) None = Invalid (lit ''Number must be an integer'')
   \<and> (3 / 2 :: real) \<notin> \<int>
   \<and> validatePositiveInteger (JNumber (Finite (3 / 2))) None
       = Invalid (lit ''Number must be an integer'')
   \<and> (0 :: int) \<le> 0
   \<and> validatePositiveInteger (JNumber (Finite 0)) None
       = Invalid (lit ''Number must be a positive integer'')
   \<and> (1 :: int) \<le> 1
   \<and> validatePositiveInteger (JNumber (Finite 1)) None = Valid (Finite 1)"
proof -
  have msg1: "orDefault None ''Number'' @ lit '' must be an integer''
              = lit ''Number must be an integer''"
    by (simp add: lit_def)
  have msg2: "orDefault None ''Number'' @ lit '' must be a positive integer''
              = lit ''Number must be a positive integer''"
    by (simp add: lit_def)
  have h1: "typeof (JString (lit ''1'')) \<noteq> ''number''" by simp
  have h2: "(3 / 2 :: real) \<notin> \<int>"
    using isInteger_iff [of "3 / 2"] by simp
  have h3: "(0 :: int) \<le> 0" by simp
  have h4: "(1 :: int) \<le> 1" by simp
  have a: "validatePositiveInteger (JString (lit ''1'')) None
             = Invalid (lit ''Number must be an integer'')"
    using validatePositiveInteger_results
            [of "JString (lit ''1'')" None "3 / 2" 0 1,
             THEN conjunct1, THEN mp, OF disjI1, OF h1]
    by (simp only: msg1)
  have b: "validatePositiveInteger (JNumber (Finite (3 / 2))) None
             = Invalid (lit ''Number must be an integer'')"
    using validatePositiveInteger_results
            [of "JString (lit ''1'')" None "3 / 2" 0 1,
             THEN conjunct2, THEN conjunct1, THEN mp, OF h2]
    by (simp only: msg1)
  have c: "validatePositiveInteger (JNumber (Finite 0)) None
             = Invalid (lit ''Number must be a positive integer'')"
    using validatePositiveInteger_results
            [of "JString (lit ''1'')" None "3 / 2" 0 1,
             THEN conjunct2, THEN conjunct2, THEN conjunct1, THEN mp, OF h3]
    by (simp only: msg2 of_int_0)
  have d: "validatePositiveInteger (JNumber (Finite 1)) None = Valid (Finite 1)"
    using validatePositiveInteger_results
            [of "JString (lit ''1'')" None "3 / 2" 0 1,
             THEN conjunct2, THEN conjunct2, THEN conjunct2, THEN mp, OF h4]
    by (simp only: of_int_1)
  from h1 a h2 b h3 c h4 d show ?thesis by blast
qed

section \<open>The expectations of the test suite\<close>

text \<open>Cases of \<open>validation.test.ts\<close> that the theorems above do not instantiate.\<close>

lemma validateNonEmpty_examples:
  "validateNonEmpty (JString (lit ''  hello  '')) None = Valid (lit ''hello'')"
  "validateNonEmpty (JString (lit ''   '')) None = Invalid (lit ''Field cannot be empty'')"
  "validateNonEmpty (JString []) (Some (lit ''Username''))
     = Invalid (lit ''Username cannot be empty'')"
  by (simp_all add: validateNonEmpty_def trim_def isWhiteSpace_def lit_def)

lemma validateEmail_examples:
  "validateEmail (JString (lit ''test@example.com'')) None = Valid (lit ''test@example.com'')"
  "validateEmail (JString (lit ''user.name+tag@example.co.uk'')) None
     = Valid (lit ''user.name+tag@example.co.uk'')"
  "validateEmail (JString (lit ''notanemail'')) None
     = Invalid (lit ''Email must be a valid email address'')"
  "validateEmail (JString (lit ''@example.com'')) None
     = Invalid (lit ''Email must be a valid email address'')"
  "validateEmail (JString (lit ''test@'')) None
     = Invalid (lit ''Email must be a valid email address'')"
  by code_simp+

lemma validateMinMaxLength_examples:
  "validateMinLength integerToString (JString (lit ''hi'')) (Finite 2) None = Valid (lit ''hi'')"
  "validateMinLength integerToString (JString []) (Finite 1) None
     = Invalid (lit ''Field must be at least 1 character'')"
  "validateMaxLength integerToString (JString (lit ''hello world'')) (Finite 5) None
     = Invalid (lit ''Field must be at most 5 characters'')"
  "validateLength integerToString (JString (lit ''hello world'')) (Finite 3) (Finite 5) None
     = Invalid (lit ''Field must be at most 5 characters'')"
  "validateLength integerToString (JString (lit ''hello'')) (Finite 3) (Finite 10) None
     = Valid (lit ''hello'')"
  by (simp_all add: example_defs)

lemma validateOneOf_examples:
  "validateOneOf (JString (lit ''green'')) [lit ''red'', lit ''green'', lit ''blue''] None
     = Valid (lit ''green'')"
  "validateOneOf (JString (lit ''yellow'')) [lit ''red'', lit ''green'', lit ''blue''] None
     = Invalid (lit ''Field must be one of: '' @ quoted (lit ''red'') @ lit '', ''
                @ quoted (lit ''green'') @ lit '', '' @ quoted (lit ''blue''))"
  by (simp_all add: validateOneOf_def lit_def)

end
